theory Spec2Isabelle
  imports Complex_Main
begin

section \<open>The lampshade planner \<open>frust_ngon.py\<close>\<close>

text \<open>
  The program plans a stained-glass lampshade: a frustum over a regular polygon, with a
  drinking glass (a vertical cylinder) standing inside it. This theory embeds the numeric
  part of the module: the three helper functions and the body of \<open>update_plot\<close>.

  Conventions of the embedding.
  \<^item> A Python float (numpy float64) is a \<^typ>\<open>real\<close>: rounding, infinities and NaN are not
    modelled, so a statement about \<open>update_plot\<close> below is one about exact real arithmetic.
    The one place where a claim turns on the rounding itself is the solve of lines 60 to 64;
    that part is embedded a second time with binary64 rounding (\<open>z_int_f64\<close>).
  \<^item> The side count is a Python int, a \<^typ>\<open>int\<close>.
  \<^item> A row \<open>[x, y, z]\<close> of a numpy array is a triple, a two-dimensional array the list of
    its rows.
  \<^item> An exception is a value \<open>Inl e\<close> of the result type.
  \<^item> The calls that draw (\<open>ax.clear\<close>, \<open>Poly3DCollection\<close>, \<open>plot_surface\<close>, \<open>scatter\<close>,
    \<open>set_title\<close>, the axis limits) are not modelled, nor is a failure inside one of them.
    Of the orange surface only the height it reaches is kept, and of the title the numbers
    it formats, not their rounding to one or two decimals.
\<close>

subsection \<open>Data\<close>

type_synonym point = "real \<times> real \<times> real"

definition px :: "point \<Rightarrow> real" where
  "px p = fst p"

definition py :: "point \<Rightarrow> real" where
  "py p = fst (snd p)"

definition pz :: "point \<Rightarrow> real" where
  "pz p = snd (snd p)"

datatype py_error = ZeroDivisionError | ValueError | IndexError

definition bind_err :: "py_error + 'a \<Rightarrow> ('a \<Rightarrow> py_error + 'b) \<Rightarrow> py_error + 'b" where
  "bind_err m f = (case m of Inl e \<Rightarrow> Inl e | Inr v \<Rightarrow> f v)"

subsection \<open>The numpy functions the module calls\<close>

text \<open>
  \<open>np.linspace(start, stop, num)\<close> with its default \<open>endpoint=True\<close>: a negative \<open>num\<close>
  raises ValueError; otherwise sample \<open>i\<close> is \<open>start + i * step\<close> with
  \<open>step = (stop - start) / (num - 1)\<close>, a single sample is \<open>start\<close>, and for more than
  one sample the last one is overwritten with \<open>stop\<close>.
\<close>

definition linspace :: "real \<Rightarrow> real \<Rightarrow> int \<Rightarrow> py_error + real list" where
  "linspace start stop num =
     (if num < 0 then Inl ValueError
      else
        let dv = num - 1;
            delta = stop - start;
            y = map real [0..<nat num];
            y1 = (if 0 < dv then map (\<lambda>v. v * (delta / real_of_int dv)) y
                  else map (\<lambda>v. v * delta) y);
            y2 = map (\<lambda>v. v + start) y1
        in Inr (if 1 < num then y2[nat num - 1 := stop] else y2))"

text \<open>\<open>np.radians\<close>: degrees to radians.\<close>

definition radians :: "real \<Rightarrow> real" where
  "radians d = d * (pi / 180)"

text \<open>\<open>np.clip(a, a_min, a_max)\<close> is \<open>minimum(a_max, maximum(a, a_min))\<close>.\<close>

definition clip :: "real \<Rightarrow> real \<Rightarrow> real \<Rightarrow> real" where
  "clip a a_min a_max = min a_max (max a a_min)"

subsection \<open>The helper functions\<close>

text \<open>
  \<open>get_face_vertices(radius, z, sides)\<close>: the angles are all but the last of the
  \<open>sides + 1\<close> samples of \<open>[0, 2 pi]\<close>.
\<close>

definition get_face_vertices :: "real \<Rightarrow> real \<Rightarrow> int \<Rightarrow> py_error + point list" where
  "get_face_vertices radius z sides =
     bind_err (linspace 0 (2 * pi) (sides + 1)) (\<lambda>ls.
       let angles = butlast ls
       in Inr (map (\<lambda>a. (radius * cos a, radius * sin a, z)) angles))"

text \<open>
  \<open>get_face_midpoints(inradius, z, sides)\<close>: the same angles, each moved by the literal
  \<open>np.pi / 5\<close>.
\<close>

definition get_face_midpoints :: "real \<Rightarrow> real \<Rightarrow> int \<Rightarrow> py_error + point list" where
  "get_face_midpoints inradius z sides =
     bind_err (linspace 0 (2 * pi) (sides + 1)) (\<lambda>ls.
       let angles = map (\<lambda>a. a + pi / 5) (butlast ls)
       in Inr (map (\<lambda>a. (inradius * cos a, inradius * sin a, z)) angles))"

text \<open>
  \<open>get_inradius(s_len, sides)\<close>: \<open>180 / sides\<close> divides by a Python int and raises
  ZeroDivisionError at 0. The outer division is one of numpy floats and never raises. Its
  divisor \<open>tan (pi / sides)\<close> is positive for \<open>sides \<ge> 3\<close>; for \<open>sides\<close> among 1, 2, -1, -2
  the real quotient is HOL's division by zero (or the tangent is), where float64 has a very
  small or very large number: nothing below rests on those values.
\<close>

definition get_inradius :: "real \<Rightarrow> int \<Rightarrow> py_error + real" where
  "get_inradius s_len sides =
     (if sides = 0 then Inl ZeroDivisionError
      else Inr ((s_len / 2) / tan (radians (180 / real_of_int sides))))"

text \<open>
  The expression of lines 78 and 79, once for \<open>v_bot\<close> and once for \<open>v_top\<close>: the distance
  in the plane between rows 0 and 1. Row 1 of an array with fewer than two rows raises
  IndexError.
\<close>

definition edge_length :: "point list \<Rightarrow> py_error + real" where
  "edge_length v =
     (if length v < 2 then Inl IndexError
      else Inr (sqrt ((px (v ! 0) - px (v ! 1))\<^sup>2 + (py (v ! 0) - py (v ! 1))\<^sup>2)))"

text \<open>Euclidean distance of two points, to state what the rings are.\<close>

definition dist3 :: "point \<Rightarrow> point \<Rightarrow> real" where
  "dist3 p q = sqrt ((px p - px q)\<^sup>2 + (py p - py q)\<^sup>2 + (pz p - pz q)\<^sup>2)"

subsection \<open>The plot update\<close>

text \<open>What the title of the plot shows: the four formatted numbers, or the fixed text.\<close>

datatype title = Covered real real real real | NoSideIntersection

text \<open>
  The local variables of \<open>update_plot\<close> when it returns, and what it handed to the axes:
  \<open>faces\<close> (the polygon collection), \<open>cyl_top\<close> (the upper end of \<open>z_dynamic\<close>, the height
  the drawn glass reaches), \<open>pts\<close> (the red scatter points, when drawn) and \<open>title\<close>.
\<close>

record frame =
  COS36 :: real
  r_bot :: real
  r_top :: real
  z_int :: real
  z_vis :: real
  v_bot :: "point list"
  v_top :: "point list"
  faces :: "point list list"
  v_bot_len :: real
  v_top_len :: real
  m_top :: "point list"
  m_bot :: "point list"
  m_len :: real
  cyl_top :: real
  pts :: "point list option"
  title :: title

text \<open>The module sets the shade height once: \<open>f_h = 5.0\<close>.\<close>

definition f_h :: real where
  "f_h = 5"

text \<open>
  \<open>update_plot(f_bot_R, f_top_R, c_r, sides)\<close>. The function reads the global \<open>f_h\<close>; here
  it is the first argument \<open>fh\<close>, and \<open>update_plot\<close> below passes the module's value.
  \<open>180 / sides\<close> raises ZeroDivisionError at 0, \<open>np.linspace\<close> ValueError for
  \<open>sides + 1 < 0\<close>, and row 1 of a ring of fewer than two points (\<open>sides\<close> 1 or -1, line 78)
  IndexError. The loop of line 73 reads rows \<open>i\<close> and \<open>(i + 1) % sides\<close> for \<open>i\<close> in
  \<open>range(sides)\<close>, all of them below the \<open>sides\<close> rows a ring has; it does not run for a
  negative \<open>sides\<close>. The bound names are the source's; \<open>in_top\<close> and \<open>in_bot\<close> name the two
  results of \<open>get_inradius\<close>, and \<open>cyl_top\<close> the upper end of \<open>z_dynamic\<close>.
\<close>

definition update_plot_at :: "real \<Rightarrow> real \<Rightarrow> real \<Rightarrow> real \<Rightarrow> int \<Rightarrow> py_error + frame" where
  "update_plot_at fh f_bot_R f_top_R c_r sides =
     (if sides = 0 then Inl ZeroDivisionError
      else
        let COS36 = cos (radians (180 / real_of_int sides));
            r_bot = f_bot_R * COS36;
            r_top = f_top_R * COS36;
            z_int = (if \<bar>r_top - r_bot\<bar> > 0.00001
                     then (c_r - r_bot) * (fh / (r_top - r_bot)) else - 1);
            z_vis = clip z_int 0 fh
        in
        bind_err (get_face_vertices f_bot_R 0 sides) (\<lambda>v_bot.
        bind_err (get_face_vertices f_top_R fh sides) (\<lambda>v_top.
        let faces = [v_bot, v_top] @
                    map (\<lambda>i. [v_bot ! i, v_bot ! ((i + 1) mod nat sides),
                                v_top ! ((i + 1) mod nat sides), v_top ! i]) [0..<nat sides]
        in
        bind_err (edge_length v_bot) (\<lambda>v_bot_len.
        bind_err (edge_length v_top) (\<lambda>v_top_len.
        bind_err (get_inradius v_top_len sides) (\<lambda>in_top.
        bind_err (get_face_midpoints in_top fh sides) (\<lambda>m_top.
        bind_err (get_inradius v_bot_len sides) (\<lambda>in_bot.
        bind_err (get_face_midpoints in_bot 0 sides) (\<lambda>m_bot.
        if length m_top < 1 \<or> length m_bot < 1 then Inl IndexError
        else
          let m_len = sqrt ((px (m_top ! 0) - px (m_bot ! 0))\<^sup>2
                            + (py (m_top ! 0) - py (m_bot ! 0))\<^sup>2
                            + (pz (m_top ! 0) - pz (m_bot ! 0))\<^sup>2);
              cyl_top = (if z_int > 0 then z_vis else 0.01)
          in
          if 0 \<le> z_int \<and> z_int \<le> fh then
            bind_err (get_face_midpoints c_r z_int sides) (\<lambda>pts.
              Inr \<lparr>COS36 = COS36, r_bot = r_bot, r_top = r_top, z_int = z_int,
                   z_vis = z_vis, v_bot = v_bot, v_top = v_top, faces = faces,
                   v_bot_len = v_bot_len, v_top_len = v_top_len,
                   m_top = m_top, m_bot = m_bot, m_len = m_len, cyl_top = cyl_top,
                   pts = Some pts, title = Covered z_int v_top_len v_bot_len m_len\<rparr>)
          else
            Inr \<lparr>COS36 = COS36, r_bot = r_bot, r_top = r_top, z_int = z_int,
                 z_vis = z_vis, v_bot = v_bot, v_top = v_top, faces = faces,
                 v_bot_len = v_bot_len, v_top_len = v_top_len,
                 m_top = m_top, m_bot = m_bot, m_len = m_len, cyl_top = cyl_top,
                 pts = None, title = NoSideIntersection\<rparr>)))))))))"

definition update_plot :: "real \<Rightarrow> real \<Rightarrow> real \<Rightarrow> int \<Rightarrow> py_error + frame" where
  "update_plot f_bot_R f_top_R c_r sides = update_plot_at f_h f_bot_R f_top_R c_r sides"

subsection \<open>Lines 60 to 64 in binary64\<close>

text \<open>
  Rounding to the nearest integer, a tie going to the even one.
\<close>

definition rne :: "real \<Rightarrow> int" where
  "rne x =
     (let f = \<lfloor>x\<rfloor>; r = x - of_int f
      in if r < 1 / 2 then f else if 1 / 2 < r then f + 1 else if even f then f else f + 1)"

text \<open>
  IEEE 754 binary64 rounding of a real number, to nearest with ties to even: the result has
  a 53-bit significand at the exponent of \<open>x\<close>. This is what the hardware returns for every
  \<open>x\<close> whose result is a normal number, \<open>2^-1022 \<le> |x| < 2^1024\<close>; subnormal results and
  overflow are not modelled. Every float64 operation of the source is the exact operation
  followed by this rounding.
\<close>

definition f64 :: "real \<Rightarrow> real" where
  "f64 x =
     (if x = 0 then 0
      else let e = \<lfloor>log 2 \<bar>x\<bar>\<rfloor> - 52
           in of_int (rne (x / 2 powi e)) * 2 powi e)"

text \<open>
  Lines 61 to 64 on the two apothems, \<open>rb\<close> for \<open>r_bot\<close> and \<open>rt\<close> for \<open>r_top\<close>: the guard
  compares the rounded difference with the literal \<open>1e-5\<close> (itself the double nearest to
  \<open>1/100000\<close>), and line 62 rounds the two differences, the quotient and the product, in
  this order.
\<close>

definition solve_f64 :: "real \<Rightarrow> real \<Rightarrow> real \<Rightarrow> real \<Rightarrow> real" where
  "solve_f64 fh rb rt c_r =
     (if \<bar>f64 (rt - rb)\<bar> > f64 0.00001
      then f64 (f64 (c_r - rb) * f64 (fh / f64 (rt - rb)))
      else - 1)"

text \<open>
  Lines 60 to 64. \<open>cos36\<close> is the float that line 59 stored in \<open>COS36\<close>; \<open>np.cos\<close> is a
  library function whose rounding is not specified, so its result is an argument here.
\<close>

definition z_int_f64 :: "real \<Rightarrow> real \<Rightarrow> real \<Rightarrow> real \<Rightarrow> real \<Rightarrow> real" where
  "z_int_f64 fh cos36 f_bot_R f_top_R c_r =
     (let r_bot = f64 (f_bot_R * cos36);
          r_top = f64 (f_top_R * cos36)
      in solve_f64 fh r_bot r_top c_r)"

text \<open>
  Magnitudes at which the model is the hardware: when \<open>H\<close> and the two exact products of
  line 60 lie in this range and the guard of line 61 holds, no operation of lines 60 to 62
  overflows or has a subnormal result.
\<close>

definition in_range64 :: "real \<Rightarrow> bool" where
  "in_range64 x \<longleftrightarrow> 2 powi (- 500) \<le> \<bar>x\<bar> \<and> \<bar>x\<bar> \<le> 2 ^ 500"

text \<open>
  The float that \<open>np.cos(np.radians(180 / 4))\<close> returns, \<open>0.7071067811865476\<close>. It is the
  double nearest to \<open>cos (pi / 4)\<close> (\<open>cos45_f64_nearest\<close> below).
\<close>

definition cos45_f64 :: real where
  "cos45_f64 = 6369051672525773 / 2 ^ 53"

subsection \<open>The rings\<close>

lemma linspace_two_pi:
  assumes "1 \<le> sides"
  shows "linspace 0 (2 * pi) (sides + 1)
         = Inr ((map (\<lambda>i. real i * (2 * pi / real_of_int sides)) [0..<Suc (nat sides)])
                  [nat sides := 2 * pi])"
proof -
  have n: "nat (sides + 1) = Suc (nat sides)"
    using assms by simp
  show ?thesis
    using assms by (simp add: linspace_def n Let_def o_def del: upt_Suc)
qed

lemma butlast_angles:
  "butlast ((map f [0..<Suc n])[n := v]) = map f [0..<n]"
  by (simp add: butlast_list_update)

lemma ring_angle: "real i * (2 * pi / real_of_int n) = 2 * pi * real i / real_of_int n"
  by simp

lemma get_face_vertices_ring:
  assumes "1 \<le> sides"
  shows "get_face_vertices radius z sides
         = Inr (map (\<lambda>i. (radius * cos (2 * pi * real i / real_of_int sides),
                           radius * sin (2 * pi * real i / real_of_int sides), z))
                  [0..<nat sides])"
  unfolding get_face_vertices_def linspace_two_pi [OF assms] bind_err_def Let_def
  by (simp only: sum.case butlast_angles map_map o_def ring_angle)

lemma get_face_midpoints_ring:
  assumes "1 \<le> sides"
  shows "get_face_midpoints inradius z sides
         = Inr (map (\<lambda>i. (inradius * cos (2 * pi * real i / real_of_int sides + pi / 5),
                           inradius * sin (2 * pi * real i / real_of_int sides + pi / 5), z))
                  [0..<nat sides])"
  unfolding get_face_midpoints_def linspace_two_pi [OF assms] bind_err_def Let_def
  by (simp only: sum.case butlast_angles map_map o_def ring_angle)

subsection \<open>What a call of the plot update computes\<close>

lemma radians_180: "n \<noteq> 0 \<Longrightarrow> radians (180 / real_of_int n) = pi / real_of_int n"
  by (simp add: radians_def)

lemma bind_err_Inr: "bind_err (Inr v) f = f v"
  by (simp add: bind_err_def)

lemma edge_length_ok: "2 \<le> length v \<Longrightarrow>
  edge_length v = Inr (sqrt ((px (v ! 0) - px (v ! 1))\<^sup>2 + (py (v ! 0) - py (v ! 1))\<^sup>2))"
  by (simp add: edge_length_def)

lemma get_face_vertices_length:
  assumes "1 \<le> sides"
  shows "\<exists>v. get_face_vertices radius z sides = Inr v \<and> length v = nat sides"
  by (simp add: get_face_vertices_ring [OF assms])

lemma get_face_midpoints_length:
  assumes "1 \<le> sides"
  shows "\<exists>v. get_face_midpoints radius z sides = Inr v \<and> length v = nat sides"
  by (simp add: get_face_midpoints_ring [OF assms])

lemma update_plot_at_ok:
  assumes "2 \<le> sides"
  shows "\<exists>fr. update_plot_at fh f_bot_R f_top_R c_r sides = Inr fr \<and>
           COS36 fr = cos (pi / real_of_int sides) \<and>
           r_bot fr = f_bot_R * cos (pi / real_of_int sides) \<and>
           r_top fr = f_top_R * cos (pi / real_of_int sides) \<and>
           z_int fr = (if \<bar>r_top fr - r_bot fr\<bar> > 0.00001
                       then (c_r - r_bot fr) * (fh / (r_top fr - r_bot fr)) else - 1) \<and>
           z_vis fr = clip (z_int fr) 0 fh \<and>
           cyl_top fr = (if z_int fr > 0 then z_vis fr else 0.01) \<and>
           get_face_vertices f_bot_R 0 sides = Inr (v_bot fr) \<and>
           get_face_vertices f_top_R fh sides = Inr (v_top fr) \<and>
           edge_length (v_bot fr) = Inr (v_bot_len fr) \<and>
           edge_length (v_top fr) = Inr (v_top_len fr) \<and>
           title fr = (if 0 \<le> z_int fr \<and> z_int fr \<le> fh
                       then Covered (z_int fr) (v_top_len fr) (v_bot_len fr) (m_len fr)
                       else NoSideIntersection) \<and>
           (\<exists>ps. get_face_midpoints c_r (z_int fr) sides = Inr ps \<and>
              pts fr = (if 0 \<le> z_int fr \<and> z_int fr \<le> fh then Some ps else None))"
proof -
  have 1: "1 \<le> sides" and 0: "sides \<noteq> 0" using assms by simp_all
  obtain vb where vb: "get_face_vertices f_bot_R 0 sides = Inr vb" "length vb = nat sides"
    using get_face_vertices_length [OF 1] by blast
  obtain vt where vt: "get_face_vertices f_top_R fh sides = Inr vt" "length vt = nat sides"
    using get_face_vertices_length [OF 1] by blast
  have lb: "2 \<le> length vb" and lt: "2 \<le> length vt"
    using assms vb(2) vt(2) by simp_all
  obtain bl where bl: "edge_length vb = Inr bl"
    using edge_length_ok [OF lb] by blast
  obtain tl where tl: "edge_length vt = Inr tl"
    using edge_length_ok [OF lt] by blast
  obtain it where it: "get_inradius tl sides = Inr it"
    using 0 by (simp add: get_inradius_def)
  obtain ib where ib: "get_inradius bl sides = Inr ib"
    using 0 by (simp add: get_inradius_def)
  obtain mt where mt: "get_face_midpoints it fh sides = Inr mt" "length mt = nat sides"
    using get_face_midpoints_length [OF 1] by blast
  obtain mb where mb: "get_face_midpoints ib 0 sides = Inr mb" "length mb = nat sides"
    using get_face_midpoints_length [OF 1] by blast
  have lm: "\<not> (length mt < 1 \<or> length mb < 1)"
    using assms mt(2) mb(2) by simp
  define k where "k = cos (pi / real_of_int sides)"
  define zi where "zi = (if \<bar>f_top_R * k - f_bot_R * k\<bar> > 0.00001
                       then (c_r - f_bot_R * k) * (fh / (f_top_R * k - f_bot_R * k)) else - 1)"
  define ml where "ml = sqrt ((px (mt ! 0) - px (mb ! 0))\<^sup>2 + (py (mt ! 0) - py (mb ! 0))\<^sup>2
                         + (pz (mt ! 0) - pz (mb ! 0))\<^sup>2)"
  define fs where "fs = [vb, vt] @
                 map (\<lambda>i. [vb ! i, vb ! ((i + 1) mod nat sides),
                             vt ! ((i + 1) mod nat sides), vt ! i]) [0..<nat sides]"
  obtain ps where ps: "get_face_midpoints c_r zi sides = Inr ps"
    using get_face_midpoints_length [OF 1] by blast
  have kk: "cos (radians (180 / real_of_int sides)) = k"
    by (simp add: k_def radians_180 [OF 0])
  note defs = update_plot_at_def kk Let_def vb vt bl tl it ib mt mb bind_err_Inr
  define fr where "fr =
     \<lparr>COS36 = k, r_bot = f_bot_R * k, r_top = f_top_R * k, z_int = zi,
      z_vis = clip zi 0 fh,
      v_bot = vb, v_top = vt, faces = fs, v_bot_len = bl, v_top_len = tl,
      m_top = mt, m_bot = mb, m_len = ml, cyl_top = (if zi > 0 then clip zi 0 fh else 0.01),
      pts = (if 0 \<le> zi \<and> zi \<le> fh then Some ps else None),
      title = (if 0 \<le> zi \<and> zi \<le> fh then Covered zi tl bl ml else NoSideIntersection)\<rparr>"
  have run: "update_plot_at fh f_bot_R f_top_R c_r sides = Inr fr"
  proof (cases "0 \<le> zi \<and> zi \<le> fh")
    case True
    have "update_plot_at fh f_bot_R f_top_R c_r sides =
            Inr \<lparr>COS36 = k, r_bot = f_bot_R * k, r_top = f_top_R * k, z_int = zi,
                 z_vis = clip zi 0 fh,
                 v_bot = vb, v_top = vt, faces = fs, v_bot_len = bl, v_top_len = tl,
                 m_top = mt, m_bot = mb, m_len = ml, cyl_top = (if zi > 0 then clip zi 0 fh else 0.01),
                 pts = Some ps, title = Covered zi tl bl ml\<rparr>"
      unfolding defs
      using 0 assms True ps
      by (simp only: if_False if_True flip: zi_def ml_def fs_def) (simp add: bind_err_Inr)
    then show ?thesis
      using True by (simp add: fr_def)
  next
    case False
    have "update_plot_at fh f_bot_R f_top_R c_r sides =
            Inr \<lparr>COS36 = k, r_bot = f_bot_R * k, r_top = f_top_R * k, z_int = zi,
                 z_vis = clip zi 0 fh,
                 v_bot = vb, v_top = vt, faces = fs, v_bot_len = bl, v_top_len = tl,
                 m_top = mt, m_bot = mb, m_len = ml, cyl_top = (if zi > 0 then clip zi 0 fh else 0.01),
                 pts = None, title = NoSideIntersection\<rparr>"
      unfolding defs
      using 0 assms False
      by (simp only: if_False if_True flip: zi_def ml_def fs_def) simp
    then show ?thesis
      using False by (simp add: fr_def)
  qed
  have f: "COS36 fr = k" "r_bot fr = f_bot_R * k" "r_top fr = f_top_R * k" "z_int fr = zi"
    "z_vis fr = clip zi 0 fh" "cyl_top fr = (if zi > 0 then clip zi 0 fh else 0.01)"
    "v_bot fr = vb" "v_top fr = vt" "v_bot_len fr = bl" "v_top_len fr = tl" "m_len fr = ml"
    "pts fr = (if 0 \<le> zi \<and> zi \<le> fh then Some ps else None)"
    "title fr = (if 0 \<le> zi \<and> zi \<le> fh then Covered zi tl bl ml else NoSideIntersection)"
    by (simp_all add: fr_def)
  show ?thesis
  proof (intro exI [of _ fr] conjI)
    show "update_plot_at fh f_bot_R f_top_R c_r sides = Inr fr"
      by (rule run)
    show "COS36 fr = cos (pi / real_of_int sides)"
      unfolding f k_def by (rule refl)
    show "r_bot fr = f_bot_R * cos (pi / real_of_int sides)"
      unfolding f k_def by (rule refl)
    show "r_top fr = f_top_R * cos (pi / real_of_int sides)"
      unfolding f k_def by (rule refl)
    show "z_int fr = (if \<bar>r_top fr - r_bot fr\<bar> > 0.00001
                      then (c_r - r_bot fr) * (fh / (r_top fr - r_bot fr)) else - 1)"
      unfolding f by (rule zi_def)
    show "z_vis fr = clip (z_int fr) 0 fh"
      unfolding f by (rule refl)
    show "cyl_top fr = (if z_int fr > 0 then z_vis fr else 0.01)"
      unfolding f by (rule refl)
    show "get_face_vertices f_bot_R 0 sides = Inr (v_bot fr)"
      unfolding f by (rule vb)
    show "get_face_vertices f_top_R fh sides = Inr (v_top fr)"
      unfolding f by (rule vt)
    show "edge_length (v_bot fr) = Inr (v_bot_len fr)"
      unfolding f by (rule bl)
    show "edge_length (v_top fr) = Inr (v_top_len fr)"
      unfolding f by (rule tl)
    show "title fr = (if 0 \<le> z_int fr \<and> z_int fr \<le> fh
                       then Covered (z_int fr) (v_top_len fr) (v_bot_len fr) (m_len fr)
                       else NoSideIntersection)"
      unfolding f by (rule refl)
    show "\<exists>ps. get_face_midpoints c_r (z_int fr) sides = Inr ps \<and>
              pts fr = (if 0 \<le> z_int fr \<and> z_int fr \<le> fh then Some ps else None)"
      unfolding f using ps by blast
  qed
qed

lemma dist3_ring:
  "dist3 (r * cos a, r * sin a, z) (0, 0, z) = \<bar>r\<bar>"
proof -
  have "(r * cos a)\<^sup>2 + (r * sin a)\<^sup>2 = r\<^sup>2 * ((cos a)\<^sup>2 + (sin a)\<^sup>2)"
    by (simp only: power_mult_distrib distrib_left)
  then have "(r * cos a)\<^sup>2 + (r * sin a)\<^sup>2 = r\<^sup>2"
    by simp
  then show ?thesis
    by (simp add: dist3_def px_def py_def pz_def)
qed

subsection \<open>C8: the vertex ring\<close>

text \<open>
  Claim C8. For a side count \<open>n \<ge> 3\<close>, a radius \<open>r > 0\<close> and any height \<open>z\<close>,
  \<open>get_face_vertices\<close> returns exactly \<open>n\<close> points; point \<open>i\<close> is
  \<open>(r cos (2 pi i / n), r sin (2 pi i / n), z)\<close>, so the points start at angle 0 and are
  \<open>2 pi / n\<close> apart, and each lies at distance \<open>r\<close> from the axis point \<open>(0, 0, z)\<close>.
\<close>

theorem get_face_vertices_spec:
  assumes "3 \<le> n" and "0 < r"
  shows "\<exists>ps. get_face_vertices r z n = Inr ps \<and> length ps = nat n \<and>
           (\<forall>i<nat n.
              ps ! i = (r * cos (2 * pi * real i / real_of_int n),
                        r * sin (2 * pi * real i / real_of_int n), z) \<and>
              dist3 (ps ! i) (0, 0, z) = r)"
proof -
  have 1: "1 \<le> n" using assms(1) by simp
  show ?thesis
    unfolding get_face_vertices_ring [OF 1]
    using assms(2) by (simp add: dist3_ring)
qed

theorem get_face_vertices_spec_witness:
  "length (projr (get_face_vertices 2 1 4)) = 4 \<and>
   projr (get_face_vertices 2 1 4) ! 1 = (2 * cos (2 * pi * 1 / 4), 2 * sin (2 * pi * 1 / 4), 1) \<and>
   dist3 (projr (get_face_vertices 2 1 4) ! 1) (0, 0, 1) = 2"
proof -
  have "(3::int) \<le> 4" and "(0::real) < 2" by simp_all
  from get_face_vertices_spec [OF this, of 1]
  obtain ps where ps: "get_face_vertices 2 1 4 = Inr ps" "length ps = nat 4"
    and all: "\<forall>i<nat 4. ps ! i = (2 * cos (2 * pi * real i / real_of_int 4),
                        2 * sin (2 * pi * real i / real_of_int 4), 1) \<and>
              dist3 (ps ! i) (0, 0, 1) = 2"
    by blast
  have "(1::nat) < nat 4" by simp
  with all have "ps ! 1 = (2 * cos (2 * pi * real (1::nat) / real_of_int 4),
                        2 * sin (2 * pi * real (1::nat) / real_of_int 4), 1)"
    and "dist3 (ps ! 1) (0, 0, 1) = 2"
    by blast+
  with ps show ?thesis by simp
qed

subsection \<open>The pentagon's apothem factor\<close>

lemma cos_pi_5: "cos (pi / 5) = (1 + sqrt 5) / 4"
proof -
  define c where "c = cos (pi / 5)"
  have pos: "0 < c"
    unfolding c_def by (rule cos_gt_zero) (simp_all add: pi_gt_zero)
  have "3 * (pi / 5) = pi - 2 * (pi / 5)"
    by simp
  then have "cos (3 * (pi / 5)) = - cos (2 * (pi / 5))"
    by (simp only: cos_pi_minus)
  then have "4 * c ^ 3 - 3 * c = - (2 * c\<^sup>2 - 1)"
    unfolding c_def by (simp only: cos_treble_cos cos_double_cos)
  then have "(c + 1) * (4 * c\<^sup>2 - 2 * c - 1) = 0"
    by (simp add: algebra_simps power2_eq_square power3_eq_cube)
  then have q: "4 * c\<^sup>2 - 2 * c - 1 = 0"
    using pos by simp
  have "(4 * c - 1)\<^sup>2 = 5"
    using q by (simp add: algebra_simps power2_eq_square)
  then have "\<bar>4 * c - 1\<bar> = sqrt 5"
    by (metis real_sqrt_abs)
  moreover have "2 < sqrt 5"
    by (rule real_less_rsqrt) simp
  ultimately have "4 * c - 1 = sqrt 5"
    using pos by (auto simp: abs_if split: if_splits)
  then show ?thesis
    unfolding c_def by simp
qed

lemma sqrt5_bounds: "2.23606 < sqrt 5" "sqrt 5 < 2.23607"
proof -
  show "2.23606 < sqrt 5"
    by (rule real_less_rsqrt) (simp add: power2_eq_square)
  show "sqrt 5 < 2.23607"
    by (rule real_less_lsqrt) (simp_all add: power2_eq_square)
qed

lemma cos_pi_5_bounds: "0.809015 < cos (pi / 5)" "cos (pi / 5) < 0.8090175"
  using sqrt5_bounds by (simp_all add: cos_pi_5)


lemma pentagon_height:
  fixes s :: real
  assumes "s * s = 5"
  shows "(1 - s) * 5 / ((1 + s) / 4 - (1 + s)) = 10 - 10 * s / 3"
proof -
  have "s \<noteq> - 1"
    using assms by auto
  then have "1 + s \<noteq> 0"
    by linarith
  moreover have "(1 + s) / 4 - (1 + s) = (- 3 / 4) * (1 + s)"
    by argo
  ultimately have ne: "(1 + s) / 4 - (1 + s) \<noteq> 0"
    by simp
  have "(10 - 10 * s / 3) * ((1 + s) / 4 - (1 + s)) = 5 - 5 * s + (5 / 2) * (s * s - 5)"
    by (simp add: field_simps)
  then have "(1 - s) * 5 = (10 - 10 * s / 3) * ((1 + s) / 4 - (1 + s))"
    using assms by simp
  then have "(1 - s) * 5 / ((1 + s) / 4 - (1 + s))
             = (10 - 10 * s / 3) * ((1 + s) / 4 - (1 + s)) / ((1 + s) / 4 - (1 + s))"
    by (rule arg_cong)
  also have "\<dots> = 10 - 10 * s / 3"
    by (rule nonzero_mult_div_cancel_right [OF ne])
  finally show ?thesis .
qed

lemma cos_pi_3: "cos (pi / real_of_int 3) = 1 / 2"
  by (simp add: cos_60)

lemma sin_less_cos_pi_5: "sin (pi / 5) < cos (pi / 5)"
proof -
  have "sin (pi / 5) = cos (pi / 2 - pi / 5)"
    by (simp only: cos_diff cos_pi_half sin_pi_half mult_zero_left mult_1 add_0)
  moreover have "cos (pi / 2 - pi / 5) < cos (pi / 5)"
    by (rule cos_monotone_0_pi) (simp_all add: pi_gt_zero)
  ultimately show ?thesis by simp
qed

lemma get_face_midpoints_pentagon:
  "get_face_midpoints inradius z 5
   = Inr (map (\<lambda>i. (inradius * cos (2 * pi * real i / real_of_int 5 + pi / real_of_int 5),
                     inradius * sin (2 * pi * real i / real_of_int 5 + pi / real_of_int 5), z))
            [0..<nat 5])"
proof -
  have "(1::int) \<le> 5" by simp
  from get_face_midpoints_ring [OF this, of inradius z] show ?thesis
    by simp
qed

subsection \<open>C1: the midpoint ring\<close>

text \<open>
  Claim C1 says that the midpoint ring is turned by half the vertex spacing, \<open>pi / n\<close>, for
  every side count. The function adds the literal \<open>pi / 5\<close> instead (see
  \<open>get_face_midpoints_ring\<close>), which is \<open>pi / n\<close> only for the pentagon (see
  \<open>get_face_midpoints_pentagon\<close>). For a square shade of
  inradius 1 at height 0 the first point is at angle \<open>pi / 5\<close>, not at \<open>pi / 4\<close>, and it is
  not at equal distances from vertices 0 and 1 of the square of circumradius 1, so it does
  not lie on the perpendicular bisector of that edge.
\<close>

theorem midpoint_phase_is_fixed:
  "\<exists>ps vs. get_face_midpoints 1 0 4 = Inr ps \<and> get_face_vertices 1 0 4 = Inr vs \<and>
     length ps = 4 \<and>
     ps ! 0 = (cos (pi / 5), sin (pi / 5), 0) \<and>
     ps ! 0 \<noteq> (cos (2 * pi * 0 / 4 + pi / 4), sin (2 * pi * 0 / 4 + pi / 4), 0) \<and>
     dist3 (ps ! 0) (vs ! 0) \<noteq> dist3 (ps ! 0) (vs ! 1)"
proof -
  have 1: "(1::int) \<le> 4" by simp
  define ps where "ps = map (\<lambda>i. (1 * cos (2 * pi * real i / real_of_int 4 + pi / 5),
                           1 * sin (2 * pi * real i / real_of_int 4 + pi / 5), 0::real)) [0..<nat 4]"
  define vs where "vs = map (\<lambda>i. (1 * cos (2 * pi * real i / real_of_int 4),
                           1 * sin (2 * pi * real i / real_of_int 4), 0::real)) [0..<nat 4]"
  have m: "get_face_midpoints 1 0 4 = Inr ps"
    unfolding ps_def by (rule get_face_midpoints_ring [OF 1])
  have v: "get_face_vertices 1 0 4 = Inr vs"
    unfolding vs_def by (rule get_face_vertices_ring [OF 1])
  have len: "length ps = 4"
    by (simp add: ps_def)
  have p0: "ps ! 0 = (cos (pi / 5), sin (pi / 5), 0)"
    by (simp add: ps_def)
  have v0: "vs ! 0 = (1, 0, 0)"
    by (simp add: vs_def)
  have v1: "vs ! 1 = (0, 1, 0)"
    by (simp add: vs_def)
  have "cos (pi / 4) < cos (pi / 5)"
    by (rule cos_monotone_0_pi) (simp_all add: pi_gt_zero)
  then have ne: "ps ! 0 \<noteq> (cos (2 * pi * 0 / 4 + pi / 4), sin (2 * pi * 0 / 4 + pi / 4), 0)"
    unfolding p0 by simp
  have d0: "dist3 (ps ! 0) (vs ! 0) = sqrt (2 - 2 * cos (pi / 5))"
  proof -
    have "(cos (pi / 5) - 1)\<^sup>2 + (sin (pi / 5))\<^sup>2
          = ((sin (pi / 5))\<^sup>2 + (cos (pi / 5))\<^sup>2) + 1 - 2 * cos (pi / 5)"
      by (simp only: power2_eq_square algebra_simps)
    then have "(cos (pi / 5) - 1)\<^sup>2 + (sin (pi / 5))\<^sup>2 = 2 - 2 * cos (pi / 5)"
      by simp
    then show ?thesis
      unfolding p0 v0 by (simp add: dist3_def px_def py_def pz_def)
  qed
  have d1: "dist3 (ps ! 0) (vs ! 1) = sqrt (2 - 2 * sin (pi / 5))"
  proof -
    have "(cos (pi / 5))\<^sup>2 + (sin (pi / 5) - 1)\<^sup>2
          = ((sin (pi / 5))\<^sup>2 + (cos (pi / 5))\<^sup>2) + 1 - 2 * sin (pi / 5)"
      by (simp only: power2_eq_square algebra_simps)
    then have "(cos (pi / 5))\<^sup>2 + (sin (pi / 5) - 1)\<^sup>2 = 2 - 2 * sin (pi / 5)"
      by simp
    then show ?thesis
      unfolding p0 v1 by (simp add: dist3_def px_def py_def pz_def)
  qed
  have "dist3 (ps ! 0) (vs ! 0) \<noteq> dist3 (ps ! 0) (vs ! 1)"
    unfolding d0 d1 using sin_less_cos_pi_5 by simp
  with m v len p0 ne show ?thesis
    by blast
qed

subsection \<open>C6: from the edge length back to the apothem\<close>

lemma chord_length:
  assumes "0 \<le> r" and "0 \<le> sin (t / 2)"
  shows "sqrt ((r - r * cos t)\<^sup>2 + (0 - r * sin t)\<^sup>2) = 2 * r * sin (t / 2)"
proof -
  have c: "cos t = 1 - 2 * (sin (t / 2))\<^sup>2"
    using cos_double_sin [of "t / 2"] by simp
  have "(r - r * cos t)\<^sup>2 + (0 - r * sin t)\<^sup>2
        = r\<^sup>2 * ((sin t)\<^sup>2 + (cos t)\<^sup>2) + r\<^sup>2 - 2 * r\<^sup>2 * cos t"
    by (simp only: power2_eq_square algebra_simps)
  also have "\<dots> = 2 * r\<^sup>2 * (1 - cos t)"
    by (simp add: algebra_simps)
  also have "\<dots> = (2 * r * sin (t / 2))\<^sup>2"
    unfolding c by (simp add: power2_eq_square algebra_simps)
  finally have "sqrt ((r - r * cos t)\<^sup>2 + (0 - r * sin t)\<^sup>2) = \<bar>2 * r * sin (t / 2)\<bar>"
    by (simp only: real_sqrt_abs)
  also have "\<dots> = 2 * r * sin (t / 2)"
    using assms by simp
  finally show ?thesis .
qed

lemma edge_length_ring:
  assumes "2 \<le> n" and "0 \<le> r"
  shows "bind_err (get_face_vertices r z n) edge_length = Inr (2 * r * sin (pi / real_of_int n))"
proof -
  have 1: "1 \<le> n" using assms(1) by simp
  have npos: "0 < real_of_int n" using assms(1) by simp
  have "0 \<le> pi / real_of_int n" and "pi / real_of_int n \<le> pi"
    using assms(1) npos by (simp_all add: field_simps)
  then have s: "0 \<le> sin (2 * pi / real_of_int n / 2)"
    by (simp add: sin_ge_zero)
  have "sqrt ((r - r * cos (2 * pi / real_of_int n))\<^sup>2 + (0 - r * sin (2 * pi / real_of_int n))\<^sup>2)
        = 2 * r * sin (2 * pi / real_of_int n / 2)"
    using assms(2) s by (rule chord_length)
  then have "sqrt ((r - r * cos (2 * pi / real_of_int n))\<^sup>2 + (r * sin (2 * pi / real_of_int n))\<^sup>2)
        = 2 * r * sin (pi / real_of_int n)"
    by simp
  moreover have "(0::nat) < nat n" "(1::nat) < nat n"
    using assms(1) by simp_all
  ultimately show ?thesis
    unfolding get_face_vertices_ring [OF 1] bind_err_Inr edge_length_def
    using assms(1) by (simp add: px_def py_def)
qed

text \<open>
  Claim C6. For \<open>n \<ge> 3\<close>, \<open>r > 0\<close> and any height \<open>z\<close>, the edge length of the ring of
  circumradius \<open>r\<close> (rows 0 and 1, as in lines 78 and 79), given to \<open>get_inradius\<close>, returns
  the apothem \<open>r cos (pi / n)\<close>. Over the reals the two sides are equal.
\<close>

theorem inradius_round_trip:
  assumes "3 \<le> n" and "0 < r"
  shows "bind_err (get_face_vertices r z n) (\<lambda>v. bind_err (edge_length v) (\<lambda>s. get_inradius s n))
         = Inr (r * cos (pi / real_of_int n))"
proof -
  have 2: "2 \<le> n" and r: "0 \<le> r" using assms by simp_all
  have npos: "0 < real_of_int n" using assms(1) by simp
  have x: "0 < pi / real_of_int n"
    using npos by simp
  have "pi / real_of_int n \<le> pi / 3"
    using assms(1) by (simp add: field_simps)
  then have x2: "pi / real_of_int n < pi / 2" and x1: "pi / real_of_int n < pi"
    using pi_gt_zero by linarith+
  have sn: "sin (pi / real_of_int n) \<noteq> 0"
    using sin_gt_zero [OF x x1] by simp
  have cs: "cos (pi / real_of_int n) \<noteq> 0"
    using cos_gt_zero [OF x x2] by simp
  obtain v where v: "get_face_vertices r z n = Inr v"
    using get_face_vertices_length [of n r z] 2 by auto
  then have e: "edge_length v = Inr (2 * r * sin (pi / real_of_int n))"
    using edge_length_ring [OF 2 r, of z] by (simp add: bind_err_Inr)
  have "get_inradius (2 * r * sin (pi / real_of_int n)) n = Inr (r * cos (pi / real_of_int n))"
    using assms(1) sn cs by (simp add: get_inradius_def radians_180 tan_def)
  then show ?thesis
    by (simp add: v e bind_err_Inr)
qed

theorem inradius_round_trip_witness:
  "(3::int) \<le> 3 \<and> (0::real) < 2 \<and>
   bind_err (get_face_vertices 2 7 3) (\<lambda>v. bind_err (edge_length v) (\<lambda>s. get_inradius s 3))
     = Inr 1"
proof -
  have "(3::int) \<le> 3" and "(0::real) < 2" by simp_all
  from inradius_round_trip [OF this, of 7] show ?thesis
    by (simp add: cos_60)
qed

subsection \<open>C3: the untapered shade\<close>

text \<open>
  Claim C3. For a side count \<open>n \<ge> 3\<close> and any cylinder radius, when the two apothems
  \<open>r_top = Rt cos (pi / n)\<close> and \<open>r_bot = Rb cos (pi / n)\<close> differ by at most \<open>1e-5\<close>, and
  in particular when \<open>Rb = Rt\<close>, no height is interpolated: \<open>z_int\<close> is the sentinel \<open>-1\<close>
  and the report is "No Side Intersection". The radii need not be positive for this.
\<close>

theorem untapered_no_intersection:
  assumes "3 \<le> n"
    and "\<bar>Rt * cos (pi / real_of_int n) - Rb * cos (pi / real_of_int n)\<bar> \<le> 0.00001 \<or> Rb = Rt"
  shows "\<exists>fr. update_plot_at fh Rb Rt c n = Inr fr \<and>
           r_bot fr = Rb * cos (pi / real_of_int n) \<and>
           r_top fr = Rt * cos (pi / real_of_int n) \<and>
           z_int fr = - 1 \<and> title fr = NoSideIntersection \<and> pts fr = None"
proof -
  have "2 \<le> n" using assms(1) by simp
  from update_plot_at_ok [OF this, of fh Rb Rt c]
  obtain fr where fr: "update_plot_at fh Rb Rt c n = Inr fr"
    and rb: "r_bot fr = Rb * cos (pi / real_of_int n)"
    and rt: "r_top fr = Rt * cos (pi / real_of_int n)"
    and zi: "z_int fr = (if \<bar>r_top fr - r_bot fr\<bar> > 0.00001
                       then (c - r_bot fr) * (fh / (r_top fr - r_bot fr)) else - 1)"
    and ti: "title fr = (if 0 \<le> z_int fr \<and> z_int fr \<le> fh
                       then Covered (z_int fr) (v_top_len fr) (v_bot_len fr) (m_len fr)
                       else NoSideIntersection)"
    and ps: "\<exists>ps. get_face_midpoints c (z_int fr) n = Inr ps \<and>
              pts fr = (if 0 \<le> z_int fr \<and> z_int fr \<le> fh then Some ps else None)"
    by blast
  have "\<bar>r_top fr - r_bot fr\<bar> \<le> 0.00001"
    using assms(2) by (auto simp: rb rt)
  then have z: "z_int fr = - 1"
    using zi by simp
  then have "title fr = NoSideIntersection" and "pts fr = None"
    using ti ps by auto
  with fr rb rt z show ?thesis by blast
qed

theorem untapered_no_intersection_witness:
  "z_int (projr (update_plot_at 5 2 2 3 4)) = - 1 \<and>
   title (projr (update_plot_at 5 2 2 3 4)) = NoSideIntersection"
proof -
  have "(3::int) \<le> 4" by simp
  moreover have "\<bar>2 * cos (pi / real_of_int 4) - 2 * cos (pi / real_of_int 4)\<bar> \<le> 0.00001 \<or> (2::real) = 2"
    by simp
  ultimately obtain fr where "update_plot_at 5 2 2 3 4 = Inr fr" "z_int fr = - 1"
      "title fr = NoSideIntersection"
    using untapered_no_intersection [of 4 2 2 5 3] by blast
  then show ?thesis by simp
qed

subsection \<open>C4: the raw height decides\<close>

text \<open>
  Claim C4. When the apothems differ by more than \<open>1e-5\<close>, \<open>z_int\<close> is the solved height
  itself, which may lie outside \<open>[0, H]\<close>; the clamped \<open>z_vis\<close> is a second value, always
  inside \<open>[0, H]\<close>. The report is chosen by \<open>0 \<le> z_int \<le> H\<close> on the raw height: a negative
  \<open>z_int\<close> gives "No Side Intersection" although its clamped value \<open>0\<close> lies in the range.
\<close>

theorem raw_height_decides:
  assumes "3 \<le> n" and "0 < fh"
    and "\<bar>Rt * cos (pi / real_of_int n) - Rb * cos (pi / real_of_int n)\<bar> > 0.00001"
  shows "\<exists>fr. update_plot_at fh Rb Rt c n = Inr fr \<and>
           z_int fr = (c - Rb * cos (pi / real_of_int n)) *
                      (fh / (Rt * cos (pi / real_of_int n) - Rb * cos (pi / real_of_int n))) \<and>
           z_vis fr = clip (z_int fr) 0 fh \<and> 0 \<le> z_vis fr \<and> z_vis fr \<le> fh \<and>
           title fr = (if 0 \<le> z_int fr \<and> z_int fr \<le> fh
                       then Covered (z_int fr) (v_top_len fr) (v_bot_len fr) (m_len fr)
                       else NoSideIntersection) \<and>
           (z_int fr < 0 \<longrightarrow> title fr = NoSideIntersection \<and> pts fr = None \<and> z_vis fr = 0)"
proof -
  have "2 \<le> n" using assms(1) by simp
  from update_plot_at_ok [OF this, of fh Rb Rt c]
  obtain fr where fr: "update_plot_at fh Rb Rt c n = Inr fr"
    and rb: "r_bot fr = Rb * cos (pi / real_of_int n)"
    and rt: "r_top fr = Rt * cos (pi / real_of_int n)"
    and zi: "z_int fr = (if \<bar>r_top fr - r_bot fr\<bar> > 0.00001
                       then (c - r_bot fr) * (fh / (r_top fr - r_bot fr)) else - 1)"
    and zv: "z_vis fr = clip (z_int fr) 0 fh"
    and ti: "title fr = (if 0 \<le> z_int fr \<and> z_int fr \<le> fh
                       then Covered (z_int fr) (v_top_len fr) (v_bot_len fr) (m_len fr)
                       else NoSideIntersection)"
    and ps: "\<exists>ps. get_face_midpoints c (z_int fr) n = Inr ps \<and>
              pts fr = (if 0 \<le> z_int fr \<and> z_int fr \<le> fh then Some ps else None)"
    by blast
  have z: "z_int fr = (c - Rb * cos (pi / real_of_int n)) *
                      (fh / (Rt * cos (pi / real_of_int n) - Rb * cos (pi / real_of_int n)))"
    using zi assms(3) by (simp add: rb rt)
  have v: "0 \<le> z_vis fr \<and> z_vis fr \<le> fh"
    using assms(2) by (simp add: zv clip_def)
  have neg: "z_int fr < 0 \<longrightarrow> title fr = NoSideIntersection \<and> pts fr = None \<and> z_vis fr = 0"
    using ti ps assms(2) by (auto simp: zv clip_def)
  show ?thesis
    using fr z zv v ti neg by blast
qed

theorem raw_height_decides_witness:
  "(3::int) \<le> 5 \<and> (0::real) < 5 \<and>
   \<bar>1 * cos (pi / real_of_int 5) - 4 * cos (pi / real_of_int 5)\<bar> > 0.00001 \<and>
   z_int (projr (update_plot_at 5 4 1 6 5)) < 0 \<and>
   title (projr (update_plot_at 5 4 1 6 5)) = NoSideIntersection \<and>
   z_vis (projr (update_plot_at 5 4 1 6 5)) = 0"
proof -
  have n: "(3::int) \<le> 5" and h: "(0::real) < 5" by simp_all
  have k: "0.809015 < cos (pi / real_of_int 5)" "cos (pi / real_of_int 5) < 0.8090175"
    using cos_pi_5_bounds by simp_all
  have gap: "\<bar>1 * cos (pi / real_of_int 5) - 4 * cos (pi / real_of_int 5)\<bar> > 0.00001"
    using k by (simp add: abs_if)
  from raw_height_decides [OF n h gap, of 6]
  obtain fr where fr: "update_plot_at 5 4 1 6 5 = Inr fr"
    and z: "z_int fr = (6 - 4 * cos (pi / real_of_int 5)) *
                      (5 / (1 * cos (pi / real_of_int 5) - 4 * cos (pi / real_of_int 5)))"
    and neg: "z_int fr < 0 \<longrightarrow> title fr = NoSideIntersection \<and> pts fr = None \<and> z_vis fr = 0"
    by blast
  have "0 < 6 - 4 * cos (pi / real_of_int 5)"
    using k by simp
  moreover have "5 / (1 * cos (pi / real_of_int 5) - 4 * cos (pi / real_of_int 5)) < 0"
    using k by (simp add: divide_less_0_iff)
  ultimately have "z_int fr < 0"
    unfolding z by (rule mult_pos_neg)
  with neg fr n h gap show ?thesis
    by simp
qed

subsection \<open>C5: the two boundary heights\<close>

text \<open>
  Over the reals the interpolation of line 62 meets both ends: a cylinder radius equal to
  the bottom apothem is solved to height \<open>0\<close>, one equal to the top apothem to height \<open>H\<close>.
\<close>

lemma boundary_heights_exact:
  assumes "3 \<le> n"
    and "\<bar>Rt * cos (pi / real_of_int n) - Rb * cos (pi / real_of_int n)\<bar> > 0.00001"
  shows "(\<exists>fr. update_plot_at fh Rb Rt (Rb * cos (pi / real_of_int n)) n = Inr fr \<and>
            r_bot fr = Rb * cos (pi / real_of_int n) \<and> z_int fr = 0) \<and>
         (\<exists>fr. update_plot_at fh Rb Rt (Rt * cos (pi / real_of_int n)) n = Inr fr \<and>
            r_top fr = Rt * cos (pi / real_of_int n) \<and> z_int fr = fh)"
proof -
  have 2: "2 \<le> n" using assms(1) by simp
  from update_plot_at_ok [OF 2, of fh Rb Rt "Rb * cos (pi / real_of_int n)"]
  obtain fr where fr: "update_plot_at fh Rb Rt (Rb * cos (pi / real_of_int n)) n = Inr fr"
    and rb: "r_bot fr = Rb * cos (pi / real_of_int n)"
    and rt: "r_top fr = Rt * cos (pi / real_of_int n)"
    and zi: "z_int fr = (if \<bar>r_top fr - r_bot fr\<bar> > 0.00001
                       then (Rb * cos (pi / real_of_int n) - r_bot fr) * (fh / (r_top fr - r_bot fr))
                       else - 1)"
    by blast
  have bot: "z_int fr = 0"
    using zi assms(2) by (simp add: rb rt)
  from update_plot_at_ok [OF 2, of fh Rb Rt "Rt * cos (pi / real_of_int n)"]
  obtain fr' where fr': "update_plot_at fh Rb Rt (Rt * cos (pi / real_of_int n)) n = Inr fr'"
    and rb': "r_bot fr' = Rb * cos (pi / real_of_int n)"
    and rt': "r_top fr' = Rt * cos (pi / real_of_int n)"
    and zi': "z_int fr' = (if \<bar>r_top fr' - r_bot fr'\<bar> > 0.00001
                       then (Rt * cos (pi / real_of_int n) - r_bot fr') * (fh / (r_top fr' - r_bot fr'))
                       else - 1)"
    by blast
  have ne: "Rt * cos (pi / real_of_int n) - Rb * cos (pi / real_of_int n) \<noteq> 0"
    using assms(2) by auto
  have top: "z_int fr' = fh"
    using zi' assms(2) ne by (simp add: rb' rt')
  show ?thesis
    using fr rb bot fr' rt' top by blast
qed

text \<open>
  The program computes line 62 in binary64, and there the second identity can fail. The
  facts about the rounding come first.
\<close>

lemma rne_close: "\<bar>of_int (rne x) - x\<bar> \<le> 1 / 2"
proof -
  have "of_int \<lfloor>x\<rfloor> \<le> x" and "x < of_int \<lfloor>x\<rfloor> + 1"
    by linarith+
  then show ?thesis
    by (auto simp: rne_def Let_def)
qed

lemma rne_eqI:
  assumes "\<bar>x - of_int m\<bar> < 1 / 2"
  shows "rne x = m"
proof -
  have c: "\<bar>of_int (rne x) - x\<bar> \<le> 1 / 2"
    by (rule rne_close)
  have "\<bar>real_of_int (rne x) - real_of_int m\<bar> < 1"
    using assms c by linarith
  then have "\<bar>real_of_int (rne x - m)\<bar> < 1"
    by simp
  then have "\<bar>rne x - m\<bar> < 1"
    by linarith
  then show ?thesis
    by simp
qed

lemma f64_zero: "f64 0 = 0"
  by (simp add: f64_def)

lemma two_powr_split: "(2::real) powr real_of_int (e + int n) = 2 powi e * 2 ^ n"
proof -
  have "(2::real) powr real_of_int (e + int n) = 2 powi (e + int n)"
    by (rule powr_real_of_int') simp_all
  also have "\<dots> = 2 powi e * 2 powi (int n)"
    by (rule power_int_add) simp
  also have "\<dots> = 2 powi e * 2 ^ n"
    by (simp only: power_int_of_nat)
  finally show ?thesis .
qed

lemma f64_scale:
  assumes "2 powi e * 2 ^ 52 \<le> \<bar>x\<bar>" and "\<bar>x\<bar> < 2 powi e * 2 ^ 53"
  shows "f64 x = of_int (rne (x / 2 powi e)) * 2 powi e"
proof -
  have "(0::real) < 2 powi e * 2 ^ 52"
    by (intro mult_pos_pos zero_less_power_int zero_less_power) simp_all
  then have pos: "0 < \<bar>x\<bar>"
    using assms(1) by linarith
  have a: "2 powr real_of_int (e + 52) \<le> \<bar>x\<bar>"
    using assms(1) two_powr_split [of e 52] by (simp only: of_nat_numeral)
  have "real_of_int (e + 52) + 1 = real_of_int (e + 53)"
    by simp
  then have b: "\<bar>x\<bar> < 2 powr (real_of_int (e + 52) + 1)"
    using assms(2) two_powr_split [of e 53] by (simp only: of_nat_numeral)
  have "\<lfloor>log 2 \<bar>x\<bar>\<rfloor> = e + 52"
    using a b pos by (simp only: floor_log_eq_powr_iff [where b = 2 and x = "\<bar>x\<bar>"]) simp
  then show ?thesis
    using pos by (simp add: f64_def)
qed

lemma f64_eqI:
  assumes "2 powi e * 2 ^ 52 \<le> \<bar>x\<bar>" and "\<bar>x\<bar> < 2 powi e * 2 ^ 53"
    and "\<bar>x / 2 powi e - of_int m\<bar> < 1 / 2"
  shows "f64 x = of_int m * 2 powi e"
  using f64_scale [OF assms(1,2)] rne_eqI [OF assms(3)] by simp

lemma f64_error: "\<bar>f64 x - x\<bar> \<le> \<bar>x\<bar> / 2 ^ 53"
proof (cases "x = 0")
  case True
  then show ?thesis by (simp add: f64_zero)
next
  case False
  define e where "e = \<lfloor>log 2 \<bar>x\<bar>\<rfloor> - 52"
  define s :: real where "s = 2 powi e"
  have s: "0 < s"
    by (simp add: s_def)
  have fx: "f64 x = of_int (rne (x / s)) * s"
    using False by (simp add: f64_def e_def s_def Let_def)
  have "real_of_int (e + 52) \<le> log 2 \<bar>x\<bar>"
    by (simp add: e_def)
  then have "2 powr real_of_int (e + 52) \<le> \<bar>x\<bar>"
    using False by (simp add: le_log_iff [where b = 2 and x = "\<bar>x\<bar>"])
  then have low: "s * 2 ^ 52 \<le> \<bar>x\<bar>"
    using two_powr_split [of e 52] by (simp only: of_nat_numeral s_def)
  have "f64 x - x = (of_int (rne (x / s)) - x / s) * s"
    using s by (simp add: fx field_simps)
  then have "\<bar>f64 x - x\<bar> = \<bar>of_int (rne (x / s)) - x / s\<bar> * s"
    using s by (simp add: abs_mult)
  also have "\<dots> \<le> (1 / 2) * s"
    using rne_close [of "x / s"] s by (intro mult_right_mono) simp_all
  also have "\<dots> = (s * 2 ^ 52) / 2 ^ 53"
    by simp
  also have "\<dots> \<le> \<bar>x\<bar> / 2 ^ 53"
    using low by (intro divide_right_mono) simp_all
  finally show ?thesis .
qed

lemma f64_threshold: "f64 0.00001 = 5902958103587057 / 2 ^ 69"
  using f64_eqI [where e = "- 69" and m = 5902958103587057 and x = "0.00001"]
  by simp

lemma top_height_close:
  assumes "d \<noteq> 0"
  shows "\<bar>f64 (d * f64 (fh / d)) - fh\<bar> \<le> (1 / 2 ^ 52 + 1 / 2 ^ 106) * \<bar>fh\<bar>"
proof -
  define q where "q = f64 (fh / d)"
  have "\<bar>q - fh / d\<bar> \<le> \<bar>fh / d\<bar> / 2 ^ 53"
    unfolding q_def by (rule f64_error)
  then have "\<bar>d\<bar> * \<bar>q - fh / d\<bar> \<le> \<bar>d\<bar> * (\<bar>fh / d\<bar> / 2 ^ 53)"
    by (intro mult_left_mono) simp_all
  moreover have "\<bar>d\<bar> * \<bar>q - fh / d\<bar> = \<bar>d * q - fh\<bar>"
    using assms by (simp add: abs_mult [symmetric] algebra_simps)
  moreover have "\<bar>d\<bar> * (\<bar>fh / d\<bar> / 2 ^ 53) = \<bar>fh\<bar> / 2 ^ 53"
    using assms by (simp add: abs_divide)
  ultimately have e1: "\<bar>d * q - fh\<bar> \<le> \<bar>fh\<bar> / 2 ^ 53"
    by simp
  then have m: "\<bar>d * q\<bar> \<le> \<bar>fh\<bar> + \<bar>fh\<bar> / 2 ^ 53"
    by linarith
  have "\<bar>f64 (d * q) - d * q\<bar> \<le> \<bar>d * q\<bar> / 2 ^ 53"
    by (rule f64_error)
  also have "\<dots> \<le> (\<bar>fh\<bar> + \<bar>fh\<bar> / 2 ^ 53) / 2 ^ 53"
    using m by (intro divide_right_mono) simp_all
  finally have e2: "\<bar>f64 (d * q) - d * q\<bar> \<le> (\<bar>fh\<bar> + \<bar>fh\<bar> / 2 ^ 53) / 2 ^ 53" .
  have "\<bar>f64 (d * q) - fh\<bar> \<le> \<bar>f64 (d * q) - d * q\<bar> + \<bar>d * q - fh\<bar>"
    by linarith
  also have "\<dots> \<le> (\<bar>fh\<bar> + \<bar>fh\<bar> / 2 ^ 53) / 2 ^ 53 + \<bar>fh\<bar> / 2 ^ 53"
    using e1 e2 by linarith
  also have "\<dots> = (1 / 2 ^ 52 + 1 / 2 ^ 106) * \<bar>fh\<bar>"
    by (simp add: field_simps)
  finally show ?thesis
    unfolding q_def .
qed

lemma cos45_f64_nearest: "f64 (cos (pi / 4)) = cos45_f64"
proof -
  have lo: "12738103345051545 / 2 ^ 53 < sqrt 2"
    by (rule real_less_rsqrt) (simp add: power2_eq_square)
  have hi: "sqrt 2 < 12738103345051547 / 2 ^ 53"
    by (rule real_less_lsqrt) (simp_all add: power2_eq_square)
  have lo': "12738103345051545 < sqrt 2 * 2 ^ 53" and hi': "sqrt 2 * 2 ^ 53 < 12738103345051547"
    using lo hi by (simp_all add: field_simps)
  have a: "2 powi (- 53) * 2 ^ 52 \<le> \<bar>sqrt 2 / 2\<bar>"
    using lo' by simp
  have b: "\<bar>sqrt 2 / 2\<bar> < 2 powi (- 53) * 2 ^ 53"
    using hi' by simp
  have "sqrt 2 / 2 / 2 powi (- 53) = sqrt 2 * 2 ^ 53 / 2"
    by simp
  then have c: "\<bar>sqrt 2 / 2 / 2 powi (- 53) - of_int 6369051672525773\<bar> < 1 / 2"
    using lo' hi' by (simp only: abs_less_iff of_int_numeral) argo
  have "f64 (sqrt 2 / 2) = of_int 6369051672525773 * 2 powi (- 53)"
    using a b c by (rule f64_eqI)
  then show ?thesis
    by (simp add: cos_45 cos45_f64_def)
qed

lemma square_shade_r_bot: "f64 (1 * cos45_f64) = 6369051672525773 / 2 ^ 53"
  using f64_eqI [where e = "- 53" and m = 6369051672525773 and x = "1 * cos45_f64"]
  by (simp add: cos45_f64_def)

lemma square_shade_r_top: "f64 (15 / 2 * cos45_f64) = 5970985942992912 / 2 ^ 50"
  using f64_eqI [where e = "- 50" and m = 5970985942992912 and x = "15 / 2 * cos45_f64"]
  by (simp add: cos45_f64_def)

lemma square_shade_gap:
  "f64 (5970985942992912 / 2 ^ 50 - 6369051672525773 / 2 ^ 53) = 5174854483927190 / 2 ^ 50"
  using f64_eqI [where e = "- 50" and m = 5174854483927190
      and x = "5970985942992912 / 2 ^ 50 - 6369051672525773 / 2 ^ 53"]
  by simp

lemma square_shade_slope:
  "f64 (5 / (5174854483927190 / 2 ^ 50)) = 4899270517327518 / 2 ^ 52"
  using f64_eqI [where e = "- 52" and m = 4899270517327518
      and x = "5 / (5174854483927190 / 2 ^ 50)"]
  by simp

lemma square_shade_height:
  "f64 (5174854483927190 / 2 ^ 50 * (4899270517327518 / 2 ^ 52)) = 5629499534213121 / 2 ^ 50"
  using f64_eqI [where e = "- 50" and m = 5629499534213121
      and x = "5174854483927190 / 2 ^ 50 * (4899270517327518 / 2 ^ 52)"]
  by simp

lemma square_shade_guard:
  "\<bar>f64 (f64 (15 / 2 * cos45_f64) - f64 (1 * cos45_f64))\<bar> > f64 0.00001"
  unfolding square_shade_r_bot square_shade_r_top square_shade_gap f64_threshold
  by simp

text \<open>
  As stated, claim C5 fails on the program's own numbers. For the square shade
  \<open>update_plot(1.0, 7.5, c_r, 4)\<close> with \<open>f_h = 5.0\<close> the apothems are
  \<open>r_bot = 0.7071067811865476\<close> and \<open>r_top = 5.303300858899107\<close>, well apart. With
  \<open>c_r = r_top\<close> line 62 gives \<open>5.000000000000001\<close>, one unit in the last place above
  \<open>H = 5\<close>, and the test of line 104 then reports "No Side Intersection".
\<close>

theorem boundary_heights_counterexample:
  "\<bar>f64 (f64 (15 / 2 * cos45_f64) - f64 (1 * cos45_f64))\<bar> > f64 0.00001 \<and>
   z_int_f64 5 cos45_f64 1 (15 / 2) (f64 (15 / 2 * cos45_f64)) = 5 + 1 / 2 ^ 50 \<and>
   z_int_f64 5 cos45_f64 1 (15 / 2) (f64 (15 / 2 * cos45_f64)) \<noteq> 5 \<and>
   \<not> (0 \<le> z_int_f64 5 cos45_f64 1 (15 / 2) (f64 (15 / 2 * cos45_f64)) \<and>
      z_int_f64 5 cos45_f64 1 (15 / 2) (f64 (15 / 2 * cos45_f64)) \<le> 5)"
proof -
  have "z_int_f64 5 cos45_f64 1 (15 / 2) (f64 (15 / 2 * cos45_f64))
        = f64 (f64 (f64 (15 / 2 * cos45_f64) - f64 (1 * cos45_f64)) *
               f64 (5 / f64 (f64 (15 / 2 * cos45_f64) - f64 (1 * cos45_f64))))"
    using square_shade_guard by (simp add: z_int_f64_def solve_f64_def Let_def)
  also have "\<dots> = 5629499534213121 / 2 ^ 50"
    unfolding square_shade_r_bot square_shade_r_top square_shade_gap square_shade_slope
      square_shade_height by (rule refl)
  finally have z: "z_int_f64 5 cos45_f64 1 (15 / 2) (f64 (15 / 2 * cos45_f64)) = 5 + 1 / 2 ^ 50"
    by simp
  show ?thesis
    unfolding z using square_shade_guard by simp
qed

text \<open>
  Claim C5, amended. Let \<open>H\<close> and the two products of line 60 be of a magnitude between
  \<open>2^-500\<close> and \<open>2^500\<close>, and let the float64 apothems pass the guard of line 61. Then a
  cylinder radius equal to the program's own \<open>r_bot\<close> is solved to exactly \<open>0\<close>, and one
  equal to its own \<open>r_top\<close> is solved to \<open>H\<close> up to the two roundings of the quotient and
  the product, \<open>|z - H| \<le> (2^-52 + 2^-106) |H|\<close>.
\<close>

theorem boundary_heights_f64:
  assumes guard: "\<bar>f64 (f64 (Rt * k) - f64 (Rb * k))\<bar> > f64 0.00001"
    and range: "in_range64 fh" "in_range64 (Rb * k)" "in_range64 (Rt * k)"
  shows "z_int_f64 fh k Rb Rt (f64 (Rb * k)) = 0 \<and>
         \<bar>z_int_f64 fh k Rb Rt (f64 (Rt * k)) - fh\<bar> \<le> (1 / 2 ^ 52 + 1 / 2 ^ 106) * \<bar>fh\<bar>"
proof -
  define d where "d = f64 (f64 (Rt * k) - f64 (Rb * k))"
  have "0 < f64 0.00001"
    unfolding f64_threshold by simp
  then have d: "d \<noteq> 0"
    using guard unfolding d_def by linarith
  have bot: "z_int_f64 fh k Rb Rt (f64 (Rb * k)) = 0"
    using guard by (simp add: z_int_f64_def solve_f64_def f64_zero Let_def)
  have "z_int_f64 fh k Rb Rt (f64 (Rt * k)) = f64 (d * f64 (fh / d))"
    using guard by (simp add: z_int_f64_def solve_f64_def d_def Let_def)
  then have "\<bar>z_int_f64 fh k Rb Rt (f64 (Rt * k)) - fh\<bar> \<le> (1 / 2 ^ 52 + 1 / 2 ^ 106) * \<bar>fh\<bar>"
    using top_height_close [OF d, of fh] by simp
  with bot show ?thesis by blast
qed

theorem boundary_heights_f64_witness:
  "\<bar>f64 (f64 (15 / 2 * cos45_f64) - f64 (1 * cos45_f64))\<bar> > f64 0.00001 \<and>
   in_range64 5 \<and> in_range64 (1 * cos45_f64) \<and> in_range64 (15 / 2 * cos45_f64) \<and>
   z_int_f64 5 cos45_f64 1 (15 / 2) (f64 (1 * cos45_f64)) = 0 \<and>
   \<bar>z_int_f64 5 cos45_f64 1 (15 / 2) (f64 (15 / 2 * cos45_f64)) - 5\<bar>
     \<le> (1 / 2 ^ 52 + 1 / 2 ^ 106) * \<bar>5\<bar>"
proof -
  have low: "(2::real) powi (- 500) \<le> 1 / 2"
  proof -
    have "(2::real) powi (- 500) = 1 / 2 ^ 500"
      by (simp add: power_int_minus_divide)
    also have "\<dots> \<le> 1 / 2 ^ 1"
      by (intro divide_left_mono power_increasing) simp_all
    finally show ?thesis by simp
  qed
  have high: "(8::real) \<le> 2 ^ 500"
  proof -
    have "(2::real) ^ 3 \<le> 2 ^ 500"
      by (rule power_increasing) simp_all
    then show ?thesis by simp
  qed
  have r1: "in_range64 5"
    using low high by (simp add: in_range64_def)
  have r2: "in_range64 (1 * cos45_f64)"
    using low high by (simp add: in_range64_def cos45_f64_def)
  have r3: "in_range64 (15 / 2 * cos45_f64)"
    using low high by (simp add: in_range64_def cos45_f64_def)
  from boundary_heights_f64 [OF square_shade_guard r1 r2 r3] square_shade_guard r1 r2 r3
  show ?thesis by blast
qed

subsection \<open>C7: the height grows with the glass\<close>




subsection \<open>C9: the pentagonal shade of the module's first call\<close>

text \<open>
  Claim C9. For \<open>update_plot(4.0, 1.0, 2.0, 5)\<close> with \<open>f_h = 5\<close> the apothem factor is
  \<open>cos\<close> of 36 degrees, about 0.8090, the apothems are about 3.236 and 0.809, the solved height
  \<open>(2 - r_bot) 5 / (r_top - r_bot)\<close> is about 2.546 and lies in \<open>[0, 5]\<close>, and the report
  is the one of a valid intersection. Each "about" is half a unit of the last digit given.
\<close>

theorem pentagon_scenario:
  "\<exists>fr. update_plot 4 1 2 5 = Inr fr \<and>
     COS36 fr = cos (radians 36) \<and> \<bar>COS36 fr - 0.8090\<bar> < 0.00005 \<and>
     r_bot fr = 4 * COS36 fr \<and> \<bar>r_bot fr - 3.236\<bar> < 0.0005 \<and>
     r_top fr = 1 * COS36 fr \<and> \<bar>r_top fr - 0.809\<bar> < 0.0005 \<and>
     z_int fr = (2 - r_bot fr) * 5 / (r_top fr - r_bot fr) \<and> \<bar>z_int fr - 2.546\<bar> < 0.0005 \<and>
     0 \<le> z_int fr \<and> z_int fr \<le> 5 \<and>
     title fr = Covered (z_int fr) (v_top_len fr) (v_bot_len fr) (m_len fr) \<and>
     pts fr \<noteq> None"
proof -
  have "(2::int) \<le> 5" by simp
  from update_plot_at_ok [OF this, of f_h 4 1 2]
  obtain fr where fr: "update_plot_at f_h 4 1 2 5 = Inr fr"
    and k: "COS36 fr = cos (pi / real_of_int 5)"
    and rb: "r_bot fr = 4 * cos (pi / real_of_int 5)"
    and rt: "r_top fr = 1 * cos (pi / real_of_int 5)"
    and zi: "z_int fr = (if \<bar>r_top fr - r_bot fr\<bar> > 0.00001
                       then (2 - r_bot fr) * (f_h / (r_top fr - r_bot fr)) else - 1)"
    and ti: "title fr = (if 0 \<le> z_int fr \<and> z_int fr \<le> f_h
                       then Covered (z_int fr) (v_top_len fr) (v_bot_len fr) (m_len fr)
                       else NoSideIntersection)"
    and ps: "\<exists>ps. get_face_midpoints 2 (z_int fr) 5 = Inr ps \<and>
              pts fr = (if 0 \<le> z_int fr \<and> z_int fr \<le> f_h then Some ps else None)"
    by blast
  have k5: "COS36 fr = (1 + sqrt 5) / 4"
    using k by (simp add: cos_pi_5)
  have k36: "COS36 fr = cos (radians 36)"
    using k by (simp add: radians_def)
  have rb5: "r_bot fr = 1 + sqrt 5" and rt5: "r_top fr = (1 + sqrt 5) / 4"
    using rb rt by (simp_all add: cos_pi_5)
  have rbk: "r_bot fr = 4 * COS36 fr" and rtk: "r_top fr = 1 * COS36 fr"
    using rb rt k by simp_all
  have gap: "\<bar>r_top fr - r_bot fr\<bar> > 0.00001"
    using sqrt5_bounds unfolding rb5 rt5 by argo
  then have z: "z_int fr = (2 - r_bot fr) * 5 / (r_top fr - r_bot fr)"
    using zi by (simp add: f_h_def)
  have "(1 - sqrt 5) * 5 / ((1 + sqrt 5) / 4 - (1 + sqrt 5)) = 10 - 10 * sqrt 5 / 3"
    by (rule pentagon_height) simp
  then have zv: "z_int fr = 10 - 10 * sqrt 5 / 3"
    unfolding z rb5 rt5 by simp
  have zb1: "\<bar>z_int fr - 2.546\<bar> < 0.0005"
    using sqrt5_bounds unfolding zv by (simp add: abs_less_iff)
  have zb2: "0 \<le> z_int fr"
    using sqrt5_bounds unfolding zv by (simp add: abs_less_iff)
  have zb3: "z_int fr \<le> 5"
    using sqrt5_bounds unfolding zv by (simp add: abs_less_iff)
  note zb = zb1 zb2 zb3
  have t: "title fr = Covered (z_int fr) (v_top_len fr) (v_bot_len fr) (m_len fr)"
    and p: "pts fr \<noteq> None"
    using ti ps zb by (auto simp: f_h_def)
  have kb: "\<bar>COS36 fr - 0.8090\<bar> < 0.00005"
    using sqrt5_bounds unfolding k5 by (simp add: abs_less_iff)
  have rbb: "\<bar>r_bot fr - 3.236\<bar> < 0.0005"
    using sqrt5_bounds unfolding rb5 by (simp add: abs_less_iff)
  have rtb: "\<bar>r_top fr - 0.809\<bar> < 0.0005"
    using sqrt5_bounds unfolding rt5 by (simp add: abs_less_iff)
  have "update_plot 4 1 2 5 = Inr fr"
    using fr by (simp add: update_plot_def)
  then show ?thesis
    using k36 kb rbk rbb rtk rtb z zb t p by blast
qed

subsection \<open>C10: the sentinel is read as a miss\<close>

text \<open>
  Claim C10. The sentinel of the untapered case is the number \<open>-1\<close>. Being negative it fails
  the test \<open>0 \<le> z_int \<le> H\<close>, the same test a solved height outside \<open>[0, H]\<close> fails, so both
  runs end with the report "No Side Intersection" and without scatter points: the report
  does not tell the two apart. The drawn glass ends at 0.01 in the untapered case, as it
  does for every solved height that is not positive.
\<close>

theorem sentinel_reads_as_miss:
  assumes "3 \<le> n" and "3 \<le> n'"
    and "\<bar>Rt * cos (pi / real_of_int n) - Rb * cos (pi / real_of_int n)\<bar> \<le> 0.00001"
    and "\<bar>Rt' * cos (pi / real_of_int n') - Rb' * cos (pi / real_of_int n')\<bar> > 0.00001"
    and "\<not> (0 \<le> (c' - Rb' * cos (pi / real_of_int n')) *
                  (fh / (Rt' * cos (pi / real_of_int n') - Rb' * cos (pi / real_of_int n'))) \<and>
             (c' - Rb' * cos (pi / real_of_int n')) *
                  (fh / (Rt' * cos (pi / real_of_int n') - Rb' * cos (pi / real_of_int n'))) \<le> fh)"
  shows "\<exists>f1 f2. update_plot_at fh Rb Rt c n = Inr f1 \<and> update_plot_at fh Rb' Rt' c' n' = Inr f2 \<and>
           z_int f1 = - 1 \<and> z_int f1 < 0 \<and> \<not> (0 \<le> z_int f1 \<and> z_int f1 \<le> fh) \<and>
           \<not> (0 \<le> z_int f2 \<and> z_int f2 \<le> fh) \<and>
           title f1 = NoSideIntersection \<and> title f2 = NoSideIntersection \<and>
           pts f1 = None \<and> pts f2 = None \<and>
           cyl_top f1 = 0.01 \<and> (z_int f2 \<le> 0 \<longrightarrow> cyl_top f2 = cyl_top f1)"
proof -
  have 2: "2 \<le> n" "2 \<le> n'" using assms(1,2) by simp_all
  from update_plot_at_ok [OF 2(1), of fh Rb Rt c]
  obtain f1 where f1: "update_plot_at fh Rb Rt c n = Inr f1"
    and rb1: "r_bot f1 = Rb * cos (pi / real_of_int n)"
    and rt1: "r_top f1 = Rt * cos (pi / real_of_int n)"
    and z1: "z_int f1 = (if \<bar>r_top f1 - r_bot f1\<bar> > 0.00001
                       then (c - r_bot f1) * (fh / (r_top f1 - r_bot f1)) else - 1)"
    and t1: "title f1 = (if 0 \<le> z_int f1 \<and> z_int f1 \<le> fh
                       then Covered (z_int f1) (v_top_len f1) (v_bot_len f1) (m_len f1)
                       else NoSideIntersection)"
    and p1: "\<exists>ps. get_face_midpoints c (z_int f1) n = Inr ps \<and>
              pts f1 = (if 0 \<le> z_int f1 \<and> z_int f1 \<le> fh then Some ps else None)"
    and g1: "cyl_top f1 = (if z_int f1 > 0 then z_vis f1 else 0.01)"
    by blast
  from update_plot_at_ok [OF 2(2), of fh Rb' Rt' c']
  obtain f2 where f2: "update_plot_at fh Rb' Rt' c' n' = Inr f2"
    and rb2: "r_bot f2 = Rb' * cos (pi / real_of_int n')"
    and rt2: "r_top f2 = Rt' * cos (pi / real_of_int n')"
    and z2: "z_int f2 = (if \<bar>r_top f2 - r_bot f2\<bar> > 0.00001
                       then (c' - r_bot f2) * (fh / (r_top f2 - r_bot f2)) else - 1)"
    and t2: "title f2 = (if 0 \<le> z_int f2 \<and> z_int f2 \<le> fh
                       then Covered (z_int f2) (v_top_len f2) (v_bot_len f2) (m_len f2)
                       else NoSideIntersection)"
    and p2: "\<exists>ps. get_face_midpoints c' (z_int f2) n' = Inr ps \<and>
              pts f2 = (if 0 \<le> z_int f2 \<and> z_int f2 \<le> fh then Some ps else None)"
    and g2: "cyl_top f2 = (if z_int f2 > 0 then z_vis f2 else 0.01)"
    by blast
  have s1: "z_int f1 = - 1"
    using z1 assms(3) unfolding rb1 rt1 by simp
  then have v1: "\<not> (0 \<le> z_int f1 \<and> z_int f1 \<le> fh)" and n1: "z_int f1 < 0"
    by simp_all
  have "z_int f2 = (c' - Rb' * cos (pi / real_of_int n')) *
                  (fh / (Rt' * cos (pi / real_of_int n') - Rb' * cos (pi / real_of_int n')))"
    using z2 assms(4) unfolding rb2 rt2 by simp
  then have v2: "\<not> (0 \<le> z_int f2 \<and> z_int f2 \<le> fh)"
    using assms(5) by simp
  have "title f1 = NoSideIntersection" "pts f1 = None"
    using t1 p1 v1 by auto
  moreover have "title f2 = NoSideIntersection" "pts f2 = None"
    using t2 p2 v2 by auto
  moreover have c1: "cyl_top f1 = 0.01"
    using g1 s1 by simp
  moreover have "z_int f2 \<le> 0 \<longrightarrow> cyl_top f2 = cyl_top f1"
    using g2 c1 by simp
  ultimately show ?thesis
    using f1 f2 s1 n1 v1 v2 by blast
qed

theorem sentinel_reads_as_miss_witness:
  "z_int (projr (update_plot_at 5 2 2 2 3)) = - 1 \<and>
   title (projr (update_plot_at 5 2 2 2 3)) = NoSideIntersection \<and>
   title (projr (update_plot_at 5 4 1 6 3)) = NoSideIntersection \<and>
   title (projr (update_plot_at 5 2 2 2 3)) = title (projr (update_plot_at 5 4 1 6 3)) \<and>
   pts (projr (update_plot_at 5 2 2 2 3)) = pts (projr (update_plot_at 5 4 1 6 3)) \<and>
   cyl_top (projr (update_plot_at 5 2 2 2 3)) = cyl_top (projr (update_plot_at 5 4 1 6 3))"
proof -
  have n: "(3::int) \<le> 3" by simp
  have deg: "\<bar>2 * cos (pi / real_of_int 3) - 2 * cos (pi / real_of_int 3)\<bar> \<le> 0.00001"
    by simp
  have gap: "\<bar>1 * cos (pi / real_of_int 3) - 4 * cos (pi / real_of_int 3)\<bar> > 0.00001"
    unfolding cos_pi_3 by simp
  have miss: "\<not> (0 \<le> (6 - 4 * cos (pi / real_of_int 3)) *
                  (5 / (1 * cos (pi / real_of_int 3) - 4 * cos (pi / real_of_int 3))) \<and>
             (6 - 4 * cos (pi / real_of_int 3)) *
                  (5 / (1 * cos (pi / real_of_int 3) - 4 * cos (pi / real_of_int 3))) \<le> 5)"
    unfolding cos_pi_3 by simp
  from sentinel_reads_as_miss [OF n n deg gap miss, of 2]
  obtain f1 f2 where r: "update_plot_at 5 2 2 2 3 = Inr f1" "update_plot_at 5 4 1 6 3 = Inr f2"
    "z_int f1 = - 1" "title f1 = NoSideIntersection" "title f2 = NoSideIntersection"
    "pts f1 = None" "pts f2 = None"
    and below: "z_int f2 \<le> 0 \<longrightarrow> cyl_top f2 = cyl_top f1"
    and "\<not> (0 \<le> z_int f2 \<and> z_int f2 \<le> 5)"
    by blast
  have 2: "(2::int) \<le> 3" by simp
  from update_plot_at_ok [OF 2, of 5 4 1 6] r(2)
  have "z_int f2 = (if \<bar>r_top f2 - r_bot f2\<bar> > 0.00001
                       then (6 - r_bot f2) * (5 / (r_top f2 - r_bot f2)) else - 1)"
    and "r_bot f2 = 4 * cos (pi / real_of_int 3)" and "r_top f2 = 1 * cos (pi / real_of_int 3)"
    by auto
  then have "z_int f2 \<le> 0"
    unfolding cos_pi_3 by simp
  with below have "cyl_top f2 = cyl_top f1"
    by simp
  with r show ?thesis by simp
qed

subsection \<open>C2: inputs outside the documented domain\<close>

text \<open>
  Claim C2 asks for a rejection of a side count below 3 and of radii that are not positive.
  The function checks nothing: with two sides, with a bottom radius 0, with a negative top
  radius and with a negative glass radius it runs to its end and sets a title.
\<close>

theorem validation_counterexample:
  "\<not> isl (update_plot 4 1 2 2) \<and> title (projr (update_plot 4 1 2 2)) = NoSideIntersection \<and>
   \<not> isl (update_plot 0 1 2 5) \<and> \<not> isl (update_plot 4 (- 1) 2 5) \<and>
   \<not> isl (update_plot 4 1 (- 2) 5)"
proof -
  have 2: "(2::int) \<le> 2" and 5: "(2::int) \<le> 5" by simp_all
  from update_plot_at_ok [OF 2, of f_h 4 1 2]
  obtain fr where fr: "update_plot_at f_h 4 1 2 2 = Inr fr"
    and rb: "r_bot fr = 4 * cos (pi / real_of_int 2)"
    and rt: "r_top fr = 1 * cos (pi / real_of_int 2)"
    and zi: "z_int fr = (if \<bar>r_top fr - r_bot fr\<bar> > 0.00001
                       then (2 - r_bot fr) * (f_h / (r_top fr - r_bot fr)) else - 1)"
    and ti: "title fr = (if 0 \<le> z_int fr \<and> z_int fr \<le> f_h
                       then Covered (z_int fr) (v_top_len fr) (v_bot_len fr) (m_len fr)
                       else NoSideIntersection)"
    by blast
  have "z_int fr = - 1"
    using zi unfolding rb rt by simp
  then have "title fr = NoSideIntersection"
    using ti by simp
  moreover obtain f1 where "update_plot_at f_h 0 1 2 5 = Inr f1"
    using update_plot_at_ok [OF 5, of f_h 0 1 2] by blast
  moreover obtain f2 where "update_plot_at f_h 4 (- 1) 2 5 = Inr f2"
    using update_plot_at_ok [OF 5, of f_h 4 "- 1" 2] by blast
  moreover obtain f3 where "update_plot_at f_h 4 1 (- 2) 5 = Inr f3"
    using update_plot_at_ok [OF 5, of f_h 4 1 "- 2"] by blast
  ultimately show ?thesis
    using fr by (simp add: update_plot_def)
qed

lemma update_plot_at_fails:
  assumes "n < 2"
  shows "isl (update_plot_at fh Rb Rt c n)"
proof -
  consider "n = 0" | "n = 1" | "n = - 1" | "n \<le> - 2"
    using assms by linarith
  then show ?thesis
  proof cases
    case 1
    then show ?thesis by (simp add: update_plot_at_def)
  next
    case 2
    have "get_face_vertices Rb 0 1 = Inr [(Rb * cos 0, Rb * sin 0, 0)]"
      by (simp add: get_face_vertices_ring)
    then show ?thesis
      unfolding 2
      by (simp add: update_plot_at_def Let_def bind_err_def edge_length_def get_face_vertices_ring
               split: sum.splits)
  next
    case 3
    have "get_face_vertices r z (- 1) = Inr []" for r z
      by (simp add: get_face_vertices_def linspace_def bind_err_def)
    then show ?thesis
      unfolding 3
      by (simp add: update_plot_at_def Let_def bind_err_def edge_length_def)
  next
    case 4
    then have "get_face_vertices r z n = Inl ValueError" for r z
      by (simp add: get_face_vertices_def linspace_def bind_err_def)
    then show ?thesis
      using 4 by (simp add: update_plot_at_def Let_def bind_err_def)
  qed
qed

text \<open>
  Claim C2, amended. \<open>update_plot\<close> does not validate its inputs. Whatever the three radii
  are, it fails exactly when \<open>sides < 2\<close>, and then through the exception of the operation
  that cannot be carried out (ZeroDivisionError at 0 sides, ValueError of \<open>np.linspace\<close> for
  \<open>sides \<le> -2\<close>); for every \<open>sides \<ge> 2\<close> it returns its numbers and a title.
\<close>

theorem no_input_validation:
  "isl (update_plot_at fh Rb Rt c n) = (n < 2) \<and>
   update_plot_at fh Rb Rt c 0 = Inl ZeroDivisionError \<and>
   update_plot_at fh Rb Rt c (- 2 - int m) = Inl ValueError"
proof -
  have "isl (update_plot_at fh Rb Rt c n) = (n < 2)"
  proof (cases "n < 2")
    case True
    then show ?thesis by (simp add: update_plot_at_fails)
  next
    case False
    then have "2 \<le> n" by simp
    from update_plot_at_ok [OF this, of fh Rb Rt c]
    obtain fr where "update_plot_at fh Rb Rt c n = Inr fr" by blast
    then show ?thesis using False by simp
  qed
  moreover have "update_plot_at fh Rb Rt c 0 = Inl ZeroDivisionError"
    by (simp add: update_plot_at_def)
  moreover have "get_face_vertices r z (- 2 - int m) = Inl ValueError" for r z
    by (simp add: get_face_vertices_def linspace_def bind_err_def)
  then have "update_plot_at fh Rb Rt c (- 2 - int m) = Inl ValueError"
    by (simp add: update_plot_at_def Let_def bind_err_def)
  ultimately show ?thesis by blast
qed

end
